theory Spec2Isabelle
  imports Complex_Main "HOL-Library.Sublist" "HOL-Library.List_Lexorder" "HOL-Library.Char_ord"
begin

section \<open>Strings\<close>

text \<open>
  Text is modelled over \<^typ>\<open>char\<close> and covers ASCII: case folding and whitespace are the
  ASCII ones. \<open>str.lower\<close> adds 32 to the code of an upper-case letter.
\<close>

definition to_lower :: "char \<Rightarrow> char" where
  "to_lower c = (let n = (of_char c :: nat) in if 65 \<le> n \<and> n \<le> 90 then char_of (n + 32) else c)"

definition lower :: "string \<Rightarrow> string" where
  "lower s = map to_lower s"

text \<open>The characters \<open>str.strip()\<close> removes: tab, the line breaks, the separators 28 to 31, space.\<close>

definition is_space :: "char \<Rightarrow> bool" where
  "is_space c = (let n = (of_char c :: nat) in (9 \<le> n \<and> n \<le> 13) \<or> (28 \<le> n \<and> n \<le> 32))"

definition strip :: "string \<Rightarrow> string" where
  "strip s = rev (dropWhile is_space (rev (dropWhile is_space s)))"

text \<open>\<open>s.split(d)\<close> for a one-character separator: always at least one piece.\<close>

fun split_on :: "char \<Rightarrow> string \<Rightarrow> string list" where
  "split_on d [] = [[]]"
| "split_on d (c # cs) =
     (if c = d then [] # split_on d cs
      else (case split_on d cs of [] \<Rightarrow> [[c]] | p # ps \<Rightarrow> (c # p) # ps))"

text \<open>\<open>sep.join(xs)\<close>.\<close>

fun join :: "string \<Rightarrow> string list \<Rightarrow> string" where
  "join sep [] = []"
| "join sep [x] = x"
| "join sep (x # y # ys) = x @ sep @ join sep (y # ys)"

text \<open>
  What the specification calls a case-insensitive substring: some run of consecutive
  characters of the text equals the name once both are lower-cased.
\<close>

fun ci_prefix :: "string \<Rightarrow> string \<Rightarrow> bool" where
  "ci_prefix [] s = True"
| "ci_prefix (a # w) [] = False"
| "ci_prefix (a # w) (c # s) = (to_lower a = to_lower c \<and> ci_prefix w s)"

fun ci_substring :: "string \<Rightarrow> string \<Rightarrow> bool" where
  "ci_substring w [] = (w = [])"
| "ci_substring w (c # s) = (ci_prefix w (c # s) \<or> ci_substring w s)"

section \<open>The regular expressions of \<open>str.contains\<close>\<close>

text \<open>
  \<open>Series.str.contains(pat, case=False)\<close> compiles \<open>pat\<close> with \<open>re.compile(pat, re.IGNORECASE)\<close>
  and keeps the entries where \<open>regex.search\<close> finds a match. The model covers the fragment
  of the pattern syntax made of literals, \<open>.\<close>, \<open>|\<close>, groups and the greedy repeats
  \<open>*\<close>, \<open>+\<close>, \<open>?\<close>; on any other construct the parser answers \<open>NotModelled\<close> and the model
  says nothing.
\<close>

datatype regex =
    Never
  | Empty
  | Lit char
  | Dot
  | Cat regex regex
  | Or regex regex
  | Star regex
  | Plus regex
  | Opt regex
  | Group regex

datatype py_error =
    KeyError "string list"
  | ReError string
  | NotModelled

type_synonym frame = "regex list \<times> regex list"

type_synonym pstate = "frame \<times> frame list"

definition seq_of :: "regex list \<Rightarrow> regex" where
  "seq_of items = foldr Cat items Empty"

definition branch_of :: "regex list \<Rightarrow> regex" where
  "branch_of bs = foldr Or bs Never"

text \<open>A frame holds the finished branches and the items of the open branch, both newest first.\<close>

definition close_frame :: "frame \<Rightarrow> regex" where
  "close_frame f = branch_of (rev (seq_of (rev (snd f)) # fst f))"

fun is_repeat :: "regex \<Rightarrow> bool" where
  "is_repeat (Star r) = True"
| "is_repeat (Plus r) = True"
| "is_repeat (Opt r) = True"
| "is_repeat r = False"

definition quant :: "char \<Rightarrow> regex \<Rightarrow> regex" where
  "quant c r = (if c = CHR ''*'' then Star r else if c = CHR ''+'' then Plus r else Opt r)"

text \<open>The characters \<open>sre_parse\<close> treats specially (its \<open>SPECIAL_CHARS\<close>).\<close>

definition special_chars :: "char list" where
  "special_chars = CHR ''.'' # CHR 0x5C # ''[{()*+?^$|''"

definition is_special :: "char \<Rightarrow> bool" where
  "is_special c = (c \<in> set special_chars)"

text \<open>
  One character of the pattern. An opening parenthesis pushes the open frame, a closing one
  pops it (\<open>unbalanced parenthesis\<close> when there is none). A repeat needs an item to repeat and
  refuses a repeat of a repeat; \<open>(?\<close> opens an extension and a \<open>?\<close> or \<open>+\<close> right after a
  repeat is a lazy or possessive suffix, all outside the fragment.
\<close>

definition parse_char :: "pstate \<Rightarrow> char \<Rightarrow> py_error + pstate" where
  "parse_char st c =
     (let done = fst (fst st); cur = snd (fst st); stack = snd st in
      if c = CHR ''|'' then Inr ((seq_of (rev cur) # done, []), stack)
      else if c = CHR ''('' then Inr (([], []), (done, cur) # stack)
      else if c = CHR '')'' then
        (case stack of
           [] \<Rightarrow> Inl (ReError ''unbalanced parenthesis'')
         | outer # rest \<Rightarrow> Inr ((fst outer, Group (close_frame (done, cur)) # snd outer), rest))
      else if c = CHR ''*'' \<or> c = CHR ''+'' \<or> c = CHR ''?'' then
        (case cur of
           [] \<Rightarrow>
             (if c = CHR ''?'' \<and> done = [] \<and> stack \<noteq> [] then Inl NotModelled
              else Inl (ReError ''nothing to repeat''))
         | r # rs \<Rightarrow>
             (if is_repeat r then
                (if c = CHR ''*'' then Inl (ReError ''multiple repeat'') else Inl NotModelled)
              else Inr ((done, quant c r # rs), stack)))
      else if c = CHR ''.'' then Inr ((done, Dot # cur), stack)
      else if is_special c then Inl NotModelled
      else Inr ((done, Lit c # cur), stack))"

definition finish :: "pstate \<Rightarrow> py_error + regex" where
  "finish st =
     (if snd st = [] then Inr (close_frame (fst st))
      else Inl (ReError ''missing ), unterminated subpattern''))"

fun parse_chars :: "pstate \<Rightarrow> string \<Rightarrow> py_error + regex" where
  "parse_chars st [] = finish st"
| "parse_chars st (c # cs) =
     (case parse_char st c of Inl e \<Rightarrow> Inl e | Inr st' \<Rightarrow> parse_chars st' cs)"

definition re_compile :: "string \<Rightarrow> py_error + regex" where
  "re_compile pat = parse_chars (([], []), []) pat"

text \<open>
  Matching by derivatives. With \<open>IGNORECASE\<close> a literal matches a character with the same
  lower case; \<open>.\<close> matches anything but a newline.
\<close>

definition lit_match :: "bool \<Rightarrow> char \<Rightarrow> char \<Rightarrow> bool" where
  "lit_match ic a c = (if ic then to_lower a = to_lower c else a = c)"

fun nullable :: "regex \<Rightarrow> bool" where
  "nullable Never = False"
| "nullable Empty = True"
| "nullable (Lit a) = False"
| "nullable Dot = False"
| "nullable (Cat r s) = (nullable r \<and> nullable s)"
| "nullable (Or r s) = (nullable r \<or> nullable s)"
| "nullable (Star r) = True"
| "nullable (Plus r) = nullable r"
| "nullable (Opt r) = True"
| "nullable (Group r) = nullable r"

fun deriv :: "bool \<Rightarrow> char \<Rightarrow> regex \<Rightarrow> regex" where
  "deriv ic c Never = Never"
| "deriv ic c Empty = Never"
| "deriv ic c (Lit a) = (if lit_match ic a c then Empty else Never)"
| "deriv ic c Dot = (if c = CHR 0x0A then Never else Empty)"
| "deriv ic c (Cat r s) =
     (if nullable r then Or (Cat (deriv ic c r) s) (deriv ic c s) else Cat (deriv ic c r) s)"
| "deriv ic c (Or r s) = Or (deriv ic c r) (deriv ic c s)"
| "deriv ic c (Star r) = Cat (deriv ic c r) (Star r)"
| "deriv ic c (Plus r) = Cat (deriv ic c r) (Star r)"
| "deriv ic c (Opt r) = deriv ic c r"
| "deriv ic c (Group r) = deriv ic c r"

text \<open>\<open>match_here\<close>: some prefix of the text matches. \<open>re_search\<close>: some run of it does.\<close>

fun match_here :: "bool \<Rightarrow> regex \<Rightarrow> string \<Rightarrow> bool" where
  "match_here ic r [] = nullable r"
| "match_here ic r (c # cs) = (nullable r \<or> match_here ic (deriv ic c r) cs)"

fun re_search :: "bool \<Rightarrow> regex \<Rightarrow> string \<Rightarrow> bool" where
  "re_search ic r [] = nullable r"
| "re_search ic r (c # cs) = (match_here ic r (c # cs) \<or> re_search ic r cs)"

section \<open>The table\<close>

text \<open>
  \<open>df = pd.read_csv(...)\<close>. The loop over \<open>df['Target Cash Crops']\<close> that collects the cash
  crops runs at start-up and calls \<open>entry.split(',')\<close> on every entry, so a table that reaches
  the form has that column and a string in it on every row: it is a field of its own. Every
  other column is looked up by name; an entry can be text, a number or missing.
\<close>

datatype cell = Str string | Num int | NaN

record row =
  target_cash_crops :: string
  cells :: "(string \<times> cell) list"

record dataframe =
  columns :: "string list"
  rows :: "row list"

definition target_col :: string where
  "target_col = ''Target Cash Crops''"

definition goal_columns :: "string list" where
  "goal_columns =
     [''Cashcrop compatibility'', ''Erosion fighter'', ''Good grazing'',
      ''Grain harvest'', ''Lasting residue'', ''Mechanical forage'',
      ''Nitrogen source'', ''Quick growth'', ''Soil builder'', ''Weed fighter'']"

definition display_cols :: "string list" where
  "display_cols =
     [''Cover Crop'', ''Planting Months'', ''TerminationMonths'',
      ''SeedCostPerAcre'', ''TerminationCostPerAcre'', ''Notes'']"

definition has_column :: "dataframe \<Rightarrow> string \<Rightarrow> bool" where
  "has_column f c = (c = target_col \<or> c \<in> set (columns f))"

definition column_value :: "row \<Rightarrow> string \<Rightarrow> cell" where
  "column_value r c =
     (if c = target_col then Str (target_cash_crops r)
      else (case map_of (cells r) c of None \<Rightarrow> NaN | Some v \<Rightarrow> v))"

text \<open>The options of the cash-crop selector: the trimmed pieces of every entry, sorted.\<close>

definition crop_pieces :: "dataframe \<Rightarrow> string list" where
  "crop_pieces f = concat (map (\<lambda>r. map strip (split_on CHR '','' (target_cash_crops r))) (rows f))"

definition cash_crop_options :: "dataframe \<Rightarrow> string list" where
  "cash_crop_options f = sort (remdups (crop_pieces f))"

text \<open>\<open>filtered[display_cols]\<close>: the listed columns, \<open>KeyError\<close> when one is missing.\<close>

record view =
  vcolumns :: "string list"
  vrows :: "cell list list"

definition select_cols :: "dataframe \<Rightarrow> string list \<Rightarrow> py_error + view" where
  "select_cols f cols =
     (let missing = filter (\<lambda>c. \<not> has_column f c) cols in
      if missing = [] then
        Inr \<lparr>vcolumns = cols, vrows = map (\<lambda>r. map (column_value r) cols) (rows f)\<rparr>
      else Inl (KeyError missing))"

section \<open>The filter\<close>

text \<open>\<open>filtered = filtered[filtered[goal] == 'Yes']\<close>.\<close>

definition goal_step :: "dataframe \<Rightarrow> string \<Rightarrow> py_error + dataframe" where
  "goal_step f goal =
     (if has_column f goal then
        Inr (f\<lparr>rows := filter (\<lambda>r. column_value r goal = Str ''Yes'') (rows f)\<rparr>)
      else Inl (KeyError [goal]))"

fun goal_loop :: "dataframe \<Rightarrow> string list \<Rightarrow> py_error + dataframe" where
  "goal_loop f [] = Inr f"
| "goal_loop f (g # gs) =
     (case goal_step f g of Inl e \<Rightarrow> Inl e | Inr f' \<Rightarrow> goal_loop f' gs)"

definition crop_pattern :: "string list \<Rightarrow> string" where
  "crop_pattern crops = join ''|'' (map strip crops)"

text \<open>\<open>series.str.contains(pat, case=False)\<close>: the pattern is compiled before any entry is read.\<close>

definition str_contains :: "string \<Rightarrow> string list \<Rightarrow> py_error + bool list" where
  "str_contains pat entries =
     (case re_compile pat of Inl e \<Rightarrow> Inl e | Inr r \<Rightarrow> Inr (map (re_search True r) entries))"

text \<open>\<open>filtered[mask]\<close>: the rows whose mask entry is true, in their order.\<close>

definition mask_rows :: "row list \<Rightarrow> bool list \<Rightarrow> row list" where
  "mask_rows rs keep = map fst (filter snd (zip rs keep))"

definition crop_step :: "dataframe \<Rightarrow> string list \<Rightarrow> py_error + dataframe" where
  "crop_step f crops =
     (case str_contains (crop_pattern crops) (map target_cash_crops (rows f)) of
        Inl e \<Rightarrow> Inl e
      | Inr keep \<Rightarrow> Inr (f\<lparr>rows := mask_rows (rows f) keep\<rparr>))"

text \<open>Lines 81 to 85 of the handler: the copy, the goal loop, the crop pattern and its mask.\<close>

definition filter_engine :: "dataframe \<Rightarrow> string list \<Rightarrow> string list \<Rightarrow> py_error + dataframe" where
  "filter_engine table goals crops =
     (case goal_loop table goals of Inl e \<Rightarrow> Inl e | Inr f \<Rightarrow> crop_step f crops)"

section \<open>The recommendation request\<close>

text \<open>
  The completion service is a fallible function: it answers with the contents of its
  choices, or raises an exception, kept as its description \<open>str(e)\<close>. \<open>to_csv\<close> is the
  library's serialisation of a frame and is a parameter.
\<close>

record message =
  role :: string
  content :: string

record request =
  model :: string
  messages :: "message list"
  temperature :: real
  max_tokens :: nat

record response =
  choices :: "string list"

type_synonym service = "request \<Rightarrow> string + response"

definition newline :: string where
  "newline = [CHR 0x0A]"

definition prompt_of :: "string \<Rightarrow> string list \<Rightarrow> string list \<Rightarrow> string" where
  "prompt_of table_text user_goals user_crops =
     newline @
     ''You are a professional agricultural advisor.'' @ newline @
     ''A farmer is rotating the following crops: '' @ join '', '' user_crops @
     '' and has selected these farming goals: '' @ join '', '' user_goals @ ''.'' @ newline @
     ''Based on the following cover crop data, recommend the best one or two options and explain why clearly using agronomic reasoning.'' @ newline @
     newline @
     ''Cover crop data:'' @ newline @
     table_text @ newline @
     newline @
     ''Respond in a helpful, professional tone starting with: Based on your farming goals, we recommend...'' @ newline @
     ''    ''"

definition system_content :: string where
  "system_content = ''You are a smart farm advisor helping farmers choose the best cover crops using expert agronomic knowledge.''"

definition build_request :: "(view \<Rightarrow> string) \<Rightarrow> view \<Rightarrow> string list \<Rightarrow> string list \<Rightarrow> request" where
  "build_request to_csv recommendation_table user_goals user_crops =
     \<lparr>model = ''llama3-70b-8192'',
      messages =
        [\<lparr>role = ''system'', content = system_content\<rparr>,
         \<lparr>role = ''user'', content = prompt_of (to_csv recommendation_table) user_goals user_crops\<rparr>],
      temperature = 0.7,
      max_tokens = 600\<rparr>"

text \<open>
  \<open>get_ai_summary\<close> returns the requests it sent with its result; \<open>response.choices[0]\<close> on
  an answer with no choice raises \<open>IndexError\<close>.
\<close>

definition get_ai_summary ::
  "service \<Rightarrow> (view \<Rightarrow> string) \<Rightarrow> view \<Rightarrow> string list \<Rightarrow> string list \<Rightarrow> request list \<times> (string + string)" where
  "get_ai_summary svc to_csv recommendation_table user_goals user_crops =
     (let req = build_request to_csv recommendation_table user_goals user_crops in
      ([req],
       (case svc req of
          Inl fault \<Rightarrow> Inl fault
        | Inr resp \<Rightarrow>
            (case choices resp of
               [] \<Rightarrow> Inl ''list index out of range''
             | first # others \<Rightarrow> Inr first))))"

section \<open>The form\<close>

text \<open>
  What a run of the script shows, in order, and the calls it makes to the service. The
  session keeps the last recommendation; line 75 starts it as the empty string.
\<close>

datatype ui_event =
    Warning string
  | Error string
  | Success string
  | Dataframe view
  | Markdown string
  | Spinner string
  | ServiceCall request
  | Write string
  | Html string

record app_state =
  df :: dataframe
  ai_response :: string

record outcome =
  shown :: "ui_event list"
  state :: app_state
  crash :: "py_error option"

definition digit :: "nat \<Rightarrow> char" where
  "digit d = char_of (48 + d)"

fun str_nat :: "nat \<Rightarrow> string" where
  "str_nat n = (if n < 10 then [digit n] else str_nat (n div 10) @ [digit (n mod 10)])"

declare str_nat.simps [simp del]

definition dquote :: string where
  "dquote = [CHR 0x22]"

definition heading :: string where
  "heading = ''<h3 style='color: #bb0000;'>Smart Recommendation from AI Agronomist</h3>''"

text \<open>
  The body of \<open>if st.button("Get Cover Crop Recommendations")\<close>, lines 78 to 104. An
  exception outside the \<open>try\<close> ends the run: \<open>crash\<close> holds it.
\<close>

definition handler ::
  "service \<Rightarrow> (view \<Rightarrow> string) \<Rightarrow> app_state \<Rightarrow> string list \<Rightarrow> string list \<Rightarrow> outcome" where
  "handler svc to_csv s selected_goals selected_cash_crops =
     (if selected_goals = [] \<or> selected_cash_crops = [] then
        \<lparr>shown = [Warning ''Please select at least one goal and one or more cash crops.''],
         state = s, crash = None\<rparr>
      else
        (case filter_engine (df s) selected_goals selected_cash_crops of
           Inl e \<Rightarrow> \<lparr>shown = [], state = s, crash = Some e\<rparr>
         | Inr filtered \<Rightarrow>
             (if rows filtered = [] then
                \<lparr>shown = [Error ''No matching cover crops found.''], state = s, crash = None\<rparr>
              else
                (let found = Success (''Found '' @ str_nat (length (rows filtered)) @
                                      '' matching cover crop(s).'') in
                 case select_cols filtered display_cols of
                   Inl e \<Rightarrow> \<lparr>shown = [found], state = s, crash = Some e\<rparr>
                 | Inr table \<Rightarrow>
                     (let before = [found, Dataframe table, Markdown heading,
                                    Spinner ''Analyzing cover crops...''];
                          summary = get_ai_summary svc to_csv table selected_goals selected_cash_crops;
                          calls = map ServiceCall (fst summary) in
                      case snd summary of
                        Inr answer \<Rightarrow>
                          \<lparr>shown = before @ calls @ [Write answer],
                           state = s\<lparr>ai_response := answer\<rparr>, crash = None\<rparr>
                      | Inl fault \<Rightarrow>
                          \<lparr>shown = before @ calls @ [Error (''AI Error: '' @ fault)],
                           state = s, crash = None\<rparr>)))))"

text \<open>
  Lines 106 to 119: the replay button exists when a recommendation is stored; \<open>py_repr\<close> is
  Python's \<open>repr\<close> of a string, a parameter.
\<close>

definition speak_again :: "(string \<Rightarrow> string) \<Rightarrow> app_state \<Rightarrow> outcome" where
  "speak_again py_repr s =
     (if ai_response s \<noteq> [] then
        \<lparr>shown = [Html (
           newline @
           ''            <script>'' @ newline @
           ''                var msg = new SpeechSynthesisUtterance('' @ py_repr (ai_response s) @
           '');'' @ newline @
           ''                msg.lang = '' @ dquote @ ''en-US'' @ dquote @ '';'' @ newline @
           ''                msg.pitch = 1;'' @ newline @
           ''                msg.rate = 1;'' @ newline @
           ''                msg.volume = 1;'' @ newline @
           ''                var voices = window.speechSynthesis.getVoices();'' @ newline @
           ''                msg.voice = voices.find(v => v.name.includes('Female') || v.name.includes('Google')) || voices[0];'' @ newline @
           ''                window.speechSynthesis.speak(msg);'' @ newline @
           ''            </script>'' @ newline @
           ''        '')],
         state = s, crash = None\<rparr>
      else \<lparr>shown = [], state = s, crash = None\<rparr>)"

text \<open>
  A user action is a press of one of the two buttons. The service may answer differently
  from one press to the next, so each press comes with the service's behaviour at that time.
\<close>

datatype action = Recommend "string list" "string list" | SpeakAgain

definition step ::
  "(view \<Rightarrow> string) \<Rightarrow> (string \<Rightarrow> string) \<Rightarrow> app_state \<Rightarrow> service \<times> action \<Rightarrow> outcome" where
  "step to_csv py_repr s sa =
     (case snd sa of
        Recommend goals crops \<Rightarrow> handler (fst sa) to_csv s goals crops
      | SpeakAgain \<Rightarrow> speak_again py_repr s)"

text \<open>The session outlives a run that ended on an exception; the next press starts from it.\<close>

fun run_actions ::
  "(view \<Rightarrow> string) \<Rightarrow> (string \<Rightarrow> string) \<Rightarrow> app_state \<Rightarrow> (service \<times> action) list \<Rightarrow> app_state" where
  "run_actions to_csv py_repr s [] = s"
| "run_actions to_csv py_repr s (a # as) =
     run_actions to_csv py_repr (state (step to_csv py_repr s a)) as"

text \<open>A selection made in a multi-select widget: distinct options of the widget.\<close>

definition selection_of :: "string list \<Rightarrow> string list \<Rightarrow> bool" where
  "selection_of opts sel = (distinct sel \<and> list_all (\<lambda>x. x \<in> set opts) sel)"

section \<open>The specification's predicates\<close>

text \<open>Every goal flag of the row equals the string \<open>Yes\<close>.\<close>

definition goals_met :: "string list \<Rightarrow> row \<Rightarrow> bool" where
  "goals_met goals r = list_all (\<lambda>g. column_value r g = Str ''Yes'') goals"

text \<open>A name without any of the pattern syntax's special characters.\<close>

definition plain :: "string \<Rightarrow> bool" where
  "plain w = list_all (\<lambda>c. \<not> is_special c) w"

text \<open>The pattern that matches the characters of a name one after the other.\<close>

definition lits :: "string \<Rightarrow> regex" where
  "lits w = seq_of (map Lit w)"

text \<open>The entry contains at least one of the crop names as a case-insensitive substring.\<close>

definition any_crop_in :: "string list \<Rightarrow> string \<Rightarrow> bool" where
  "any_crop_in crops entry = list_ex (\<lambda>c. ci_substring c entry) crops"

text \<open>The rows one goal step keeps on its own: the per-goal result.\<close>

definition goal_rows :: "dataframe \<Rightarrow> string \<Rightarrow> row list" where
  "goal_rows f goal = (case goal_step f goal of Inl e \<Rightarrow> [] | Inr out \<Rightarrow> rows out)"

section \<open>Scenario data\<close>

text \<open>
  Scenario 1 of the specification: one record, \<open>Soil builder\<close> set, crops \<open>Corn, Soybeans\<close>.
\<close>

definition scenario_row :: row where
  "scenario_row =
     \<lparr>target_cash_crops = ''Corn, Soybeans'',
      cells =
        [(''Cover Crop'', Str ''Cereal Rye''), (''Soil builder'', Str ''Yes''),
         (''Weed fighter'', Str ''No''), (''SeedCostPerAcre'', Num 25)]\<rparr>"

definition scenario_table :: dataframe where
  "scenario_table =
     \<lparr>columns = ''Cover Crop'' # goal_columns @ tl display_cols, rows = [scenario_row]\<rparr>"

definition scenario_view :: view where
  "scenario_view =
     \<lparr>vcolumns = display_cols,
      vrows = [[Str ''Cereal Rye'', NaN, NaN, Num 25, NaN, NaN]]\<rparr>"

definition scenario_state :: app_state where
  "scenario_state =
     \<lparr>df = scenario_table,
      ai_response = ''Based on your farming goals, we recommend Cereal Rye.''\<rparr>"

definition failing_service :: service where
  "failing_service req = Inl ''Connection error.''"

definition answering_service :: service where
  "answering_service req =
     Inr \<lparr>choices = [''Based on your farming goals, we recommend Oats.'', ''second choice'']\<rparr>"

definition header_csv :: "view \<Rightarrow> string" where
  "header_csv v = join '','' (vcolumns v)"

text \<open>
  A table of three records. The first names its crops with parentheses, one of them around
  a comma, so that the selector offers \<open>Corn (Sweet)\<close>, \<open>Wheat (Winter\<close> and \<open>Spring)\<close>.
\<close>

definition paren_row :: row where
  "paren_row =
     \<lparr>target_cash_crops = ''Corn (Sweet), Wheat (Winter, Spring)'',
      cells =
        [(''Cover Crop'', Str ''Crimson Clover''), (''Soil builder'', Str ''Yes''),
         (''Weed fighter'', Str ''Yes'')]\<rparr>"

definition oats_row :: row where
  "oats_row =
     \<lparr>target_cash_crops = ''Soybeans'',
      cells = [(''Cover Crop'', Str ''Oats''), (''Soil builder'', Str ''No'')]\<rparr>"

definition mixed_table :: dataframe where
  "mixed_table =
     \<lparr>columns = ''Cover Crop'' # goal_columns @ tl display_cols,
      rows = [paren_row, scenario_row, oats_row]\<rparr>"

section \<open>Properties\<close>

subsection \<open>The goal loop and the crop mask\<close>

lemma has_column_rows [simp]: "has_column (f\<lparr>rows := rs\<rparr>) = has_column f"
  by (rule ext) (simp add: has_column_def)

lemma goal_loop_present:
  "list_all (has_column f) gs \<Longrightarrow>
   goal_loop f gs = Inr (f\<lparr>rows := filter (goals_met gs) (rows f)\<rparr>)"
proof (induction gs arbitrary: f)
  case Nil
  then show ?case by (simp add: goals_met_def)
next
  case (Cons g gs)
  have "filter (goals_met gs) (filter (\<lambda>r. column_value r g = Str ''Yes'') (rows f))
        = filter (goals_met (g # gs)) (rows f)"
    by (simp add: goals_met_def) (rule filter_cong, simp_all add: goals_met_def)
  with Cons show ?case by (simp add: goal_step_def)
qed

lemma mask_rows_map: "mask_rows rs (map p rs) = filter p rs"
  by (induction rs) (simp_all add: mask_rows_def)

lemma crop_step_eq:
  "crop_step f crops =
     (case re_compile (crop_pattern crops) of
        Inl e \<Rightarrow> Inl e
      | Inr re \<Rightarrow> Inr (f\<lparr>rows := filter (\<lambda>r. re_search True re (target_cash_crops r)) (rows f)\<rparr>))"
  by (simp add: crop_step_def str_contains_def comp_def
      mask_rows_map [of _ "\<lambda>r. re_search True _ (target_cash_crops r)", simplified, symmetric]
      split: sum.splits)

lemma scenario_filter:
  "filter_engine (df scenario_state) [''Soil builder''] [''Corn''] = Inr scenario_table"
  by code_simp

lemma scenario_select: "select_cols scenario_table display_cols = Inr scenario_view"
  by code_simp

subsection \<open>The table is only read\<close>

lemma handler_df: "df (state (handler svc tc s G C)) = df s"
  by (simp add: handler_def Let_def split: sum.splits)

lemma speak_again_df: "df (state (speak_again pr s)) = df s"
  by (simp add: speak_again_def)

lemma step_df: "df (state (step tc pr s a)) = df s"
  by (simp add: step_def handler_df speak_again_df split: action.splits)

lemma run_actions_df: "df (run_actions tc pr s acts) = df s"
  by (induction acts arbitrary: s) (simp_all add: step_df)

text \<open>
  C9. No user action changes the loaded table: after one button press, and after any
  sequence of presses, the table of the state is the table it started with.
\<close>

theorem table_never_mutated:
  "df (state (step to_csv py_repr s a)) = df s \<and> df (run_actions to_csv py_repr s acts) = df s"
  by (simp add: step_df run_actions_df)

subsection \<open>The guard on empty selections\<close>

text \<open>
  C7. With no goal or no cash crop selected the handler shows the warning and nothing
  else: the state is unchanged, no service call is among the events, and the outcome does
  not depend on the table, so the filter is not run (the instance below takes a crop
  selection on which the filter raises).
\<close>

theorem empty_selection_warns:
  "selected_goals = [] \<or> selected_cash_crops = [] \<Longrightarrow>
   handler svc to_csv s selected_goals selected_cash_crops =
     \<lparr>shown = [Warning ''Please select at least one goal and one or more cash crops.''],
      state = s, crash = None\<rparr>"
  by (simp add: handler_def)

theorem empty_selection_warns_witness:
  "filter_engine (df scenario_state) [] [''(''] = Inl (ReError ''missing ), unterminated subpattern'')
   \<and> handler failing_service header_csv scenario_state [] [''(''] =
       \<lparr>shown = [Warning ''Please select at least one goal and one or more cash crops.''],
        state = scenario_state, crash = None\<rparr>"
proof -
  have "filter_engine (df scenario_state) [] [''(''] =
          Inl (ReError ''missing ), unterminated subpattern'')"
    by code_simp
  moreover have "handler failing_service header_csv scenario_state [] [''(''] =
       \<lparr>shown = [Warning ''Please select at least one goal and one or more cash crops.''],
        state = scenario_state, crash = None\<rparr>"
    by (rule empty_selection_warns) simp
  ultimately show ?thesis by (rule conjI)
qed

subsection \<open>Faults of the completion service\<close>

text \<open>
  C3. When the service raises during a recommendation request, or answers with no choice
  so that reading the first one raises, the handler shows the rows, calls the service once,
  shows \<open>AI Error:\<close> followed by the fault's description, ends normally and leaves the
  session state, the stored recommendation included, as it was.
\<close>

theorem service_fault_reported:
  assumes "selected_goals \<noteq> []" and "selected_cash_crops \<noteq> []"
    and "filter_engine (df s) selected_goals selected_cash_crops = Inr filtered"
    and "rows filtered \<noteq> []"
    and "select_cols filtered display_cols = Inr table"
    and "svc (build_request to_csv table selected_goals selected_cash_crops) = Inl fault
         \<or> (\<exists>resp. svc (build_request to_csv table selected_goals selected_cash_crops) = Inr resp
                \<and> choices resp = [] \<and> fault = ''list index out of range'')"
  shows "shown (handler svc to_csv s selected_goals selected_cash_crops) =
           [Success (''Found '' @ str_nat (length (rows filtered)) @ '' matching cover crop(s).''),
            Dataframe table, Markdown heading, Spinner ''Analyzing cover crops...'',
            ServiceCall (build_request to_csv table selected_goals selected_cash_crops),
            Error (''AI Error: '' @ fault)]
         \<and> state (handler svc to_csv s selected_goals selected_cash_crops) = s
         \<and> crash (handler svc to_csv s selected_goals selected_cash_crops) = None"
  using assms by (auto simp: handler_def get_ai_summary_def Let_def)

theorem service_fault_reported_witness:
  "shown (handler failing_service header_csv scenario_state [''Soil builder''] [''Corn'']) =
     [Success ''Found 1 matching cover crop(s).'',
      Dataframe scenario_view, Markdown heading, Spinner ''Analyzing cover crops...'',
      ServiceCall (build_request header_csv scenario_view [''Soil builder''] [''Corn'']),
      Error ''AI Error: Connection error.'']
   \<and> state (handler failing_service header_csv scenario_state [''Soil builder''] [''Corn'']) =
       scenario_state
   \<and> ai_response scenario_state = ''Based on your farming goals, we recommend Cereal Rye.''"
proof -
  have goals: "[''Soil builder''] \<noteq> []" and crops: "[''Corn''] \<noteq> []"
    by simp_all
  have rows: "rows scenario_table \<noteq> []"
    by (simp add: scenario_table_def)
  have fault: "failing_service (build_request header_csv scenario_view [''Soil builder''] [''Corn''])
               = Inl ''Connection error.''
      \<or> (\<exists>resp. failing_service (build_request header_csv scenario_view [''Soil builder''] [''Corn''])
                  = Inr resp
             \<and> choices resp = [] \<and> ''Connection error.'' = ''list index out of range'')"
    by (simp add: failing_service_def)
  have n: "str_nat (length (rows scenario_table)) = ''1''"
    by code_simp
  from service_fault_reported [where svc = failing_service and to_csv = header_csv,
      OF goals crops scenario_filter rows scenario_select fault]
  show ?thesis by (simp add: n scenario_state_def)
qed

subsection \<open>The request\<close>

text \<open>
  C8. The requester sends one request, with the model \<open>llama3-70b-8192\<close>, temperature 0.7
  and at most 600 tokens, and when the service answers it returns the content of the first
  choice as it is.
\<close>

theorem requester_fixed_parameters:
  "fst (get_ai_summary svc to_csv table goals crops) = [build_request to_csv table goals crops]
   \<and> model (build_request to_csv table goals crops) = ''llama3-70b-8192''
   \<and> temperature (build_request to_csv table goals crops) = 0.7
   \<and> max_tokens (build_request to_csv table goals crops) = 600
   \<and> (svc (build_request to_csv table goals crops) = Inr resp \<longrightarrow>
        choices resp = first # others \<longrightarrow>
        snd (get_ai_summary svc to_csv table goals crops) = Inr first)"
  by (simp add: get_ai_summary_def build_request_def Let_def)

theorem requester_fixed_parameters_witness:
  "answering_service (build_request header_csv scenario_view [''Soil builder''] [''Corn'']) =
     Inr \<lparr>choices = [''Based on your farming goals, we recommend Oats.'', ''second choice'']\<rparr>
   \<and> snd (get_ai_summary answering_service header_csv scenario_view [''Soil builder''] [''Corn'']) =
       Inr ''Based on your farming goals, we recommend Oats.''"
  using requester_fixed_parameters [of answering_service header_csv scenario_view
      "[''Soil builder'']" "[''Corn'']"
      "\<lparr>choices = [''Based on your farming goals, we recommend Oats.'', ''second choice'']\<rparr>"
      "''Based on your farming goals, we recommend Oats.''" "[''second choice'']"]
  by (simp add: answering_service_def)

subsection \<open>Patterns built from plain names\<close>

lemma plain_char:
  "\<not> is_special c \<Longrightarrow> parse_char ((fin, cur), stack) c = Inr ((fin, Lit c # cur), stack)"
  by (simp add: parse_char_def is_special_def special_chars_def)

lemma parse_plain:
  "plain w \<Longrightarrow>
   parse_chars ((fin, cur), stack) (w @ rest) =
   parse_chars ((fin, rev (map Lit w) @ cur), stack) rest"
  by (induction w arbitrary: cur) (simp_all add: plain_def plain_char)

lemma parse_bar:
  "parse_chars ((fin, cur), stack) (CHR ''|'' # rest) =
   parse_chars ((seq_of (rev cur) # fin, []), stack) rest"
  by (simp add: parse_char_def)

lemma parse_join:
  "list_all plain (n # ns) \<Longrightarrow>
   parse_chars ((fin, []), []) (join ''|'' (n # ns)) =
   Inr (branch_of (rev fin @ map lits (n # ns)))"
proof (induction ns arbitrary: n fin)
  case Nil
  then have "parse_chars ((fin, []), []) (n @ []) = parse_chars ((fin, rev (map Lit n) @ []), []) []"
    by (intro parse_plain) simp
  then show ?case by (simp add: finish_def close_frame_def lits_def)
next
  case (Cons m ms)
  have "parse_chars ((fin, []), []) (join ''|'' (n # m # ms)) =
        parse_chars ((fin, []), []) (n @ (CHR ''|'' # join ''|'' (m # ms)))"
    by simp
  also have "\<dots> = parse_chars ((fin, rev (map Lit n) @ []), []) (CHR ''|'' # join ''|'' (m # ms))"
    using Cons.prems by (intro parse_plain) simp
  also have "\<dots> = parse_chars ((lits n # fin, []), []) (join ''|'' (m # ms))"
    by (simp only: parse_bar append_Nil2 rev_rev_ident lits_def)
  also have "\<dots> = Inr (branch_of (rev (lits n # fin) @ map lits (m # ms)))"
    using Cons.prems by (intro Cons.IH) simp
  finally show ?case by simp
qed

lemma compile_plain:
  "names \<noteq> [] \<Longrightarrow> list_all plain names \<Longrightarrow>
   re_compile (join ''|'' names) = Inr (branch_of (map lits names))"
  by (cases names) (simp_all add: re_compile_def parse_join del: join.simps)

lemma match_here_Never [simp]: "match_here ic Never s = False"
  by (induction s) simp_all

lemma match_here_Cat_Never [simp]: "match_here ic (Cat Never r) s = False"
  by (induction s) simp_all

lemma match_here_Or [simp]:
  "match_here ic (Or r s) t = (match_here ic r t \<or> match_here ic s t)"
  by (induction t arbitrary: r s) auto

lemma match_here_Cat_Empty [simp]: "match_here ic (Cat Empty r) s = match_here ic r s"
  by (cases s) simp_all

lemma match_here_lits: "match_here True (lits w) s = ci_prefix w s"
proof (induction w arbitrary: s)
  case Nil
  then show ?case by (cases s) (simp_all add: lits_def seq_of_def)
next
  case (Cons a w)
  then show ?case by (cases s) (simp_all add: lits_def seq_of_def lit_match_def)
qed

lemma re_search_Never [simp]: "re_search ic Never s = False"
  by (induction s) simp_all

lemma re_search_Or [simp]:
  "re_search ic (Or r s) t = (re_search ic r t \<or> re_search ic s t)"
  by (induction t) auto

lemma nullable_lits [simp]: "nullable (lits w) = (w = [])"
  by (cases w) (simp_all add: lits_def seq_of_def)

lemma re_search_lits: "re_search True (lits w) s = ci_substring w s"
  by (induction s) (simp_all add: match_here_lits del: match_here.simps)

lemma re_search_branch:
  "re_search True (branch_of (map lits names)) s = any_crop_in names s"
  by (induction names) (simp_all add: branch_of_def any_crop_in_def re_search_lits)

lemma nullable_search: "nullable r \<Longrightarrow> re_search ic r s"
  by (cases s) simp_all

subsection \<open>Trimmed names\<close>

lemma rstrip_prefix: "\<exists>t. u = rev (dropWhile P (rev u)) @ t"
proof -
  have "rev (takeWhile P (rev u) @ dropWhile P (rev u)) = rev (rev u)"
    by (simp only: takeWhile_dropWhile_id)
  then have "u = rev (dropWhile P (rev u)) @ rev (takeWhile P (rev u))"
    by (simp only: rev_append rev_rev_ident)
  then show ?thesis ..
qed

lemma strip_ends:
  "strip w = [] \<or> (\<not> is_space (hd (strip w)) \<and> \<not> is_space (last (strip w)))"
proof (cases "strip w = []")
  case True
  then show ?thesis by simp
next
  case False
  define u where "u = dropWhile is_space w"
  have sw: "strip w = rev (dropWhile is_space (rev u))" by (simp add: strip_def u_def)
  obtain t where t: "u = strip w @ t" using rstrip_prefix [of u is_space] sw by auto
  from False t have "u \<noteq> []" by auto
  then have "\<not> is_space (hd u)" unfolding u_def by (rule hd_dropWhile)
  with t False have h: "\<not> is_space (hd (strip w))" by (cases "strip w") auto
  from False sw have ne: "dropWhile is_space (rev u) \<noteq> []" by auto
  then have "\<not> is_space (hd (dropWhile is_space (rev u)))" by (rule hd_dropWhile)
  with ne sw have "\<not> is_space (last (strip w))" by (simp add: last_rev)
  with h show ?thesis by simp
qed

lemma strip_fixed: "v = [] \<or> (\<not> is_space (hd v) \<and> \<not> is_space (last v)) \<Longrightarrow> strip v = v"
proof (cases "v = []")
  case True
  then show ?thesis by (simp add: strip_def)
next
  case False
  assume "v = [] \<or> (\<not> is_space (hd v) \<and> \<not> is_space (last v))"
  with False have h: "\<not> is_space (hd v)" and l: "\<not> is_space (last v)" by auto
  from False h have "dropWhile is_space v = v" by (cases v) auto
  moreover from False l have "dropWhile is_space (rev v) = rev v"
    by (cases "rev v") (auto simp: last_rev [symmetric] hd_rev)
  ultimately show ?thesis by (simp add: strip_def)
qed

lemma strip_strip: "strip (strip w) = strip w"
  by (rule strip_fixed) (rule strip_ends)

lemma option_stripped: "c \<in> set (cash_crop_options f) \<Longrightarrow> strip c = c"
  by (auto simp: cash_crop_options_def crop_pieces_def strip_strip)

lemma selection_stripped: "selection_of (cash_crop_options f) crops \<Longrightarrow> map strip crops = crops"
  by (auto simp: selection_of_def list_all_iff option_stripped intro!: map_idI)

lemma strip_plain: "plain w \<Longrightarrow> plain (strip w)"
proof -
  have "set (strip w) \<subseteq> set w"
    by (auto simp: strip_def dest!: set_dropWhileD)
  then show "plain w \<Longrightarrow> plain (strip w)"
    by (auto simp: plain_def list_all_iff)
qed

lemma compile_crops:
  "crops \<noteq> [] \<Longrightarrow> list_all plain crops \<Longrightarrow>
   re_compile (crop_pattern crops) = Inr (branch_of (map lits (map strip crops)))"
  unfolding crop_pattern_def
  by (rule compile_plain) (auto simp: list_all_iff strip_plain)

lemma crop_step_plain:
  "crops \<noteq> [] \<Longrightarrow> list_all plain crops \<Longrightarrow>
   crop_step f crops =
     Inr (f\<lparr>rows := filter (\<lambda>r. any_crop_in (map strip crops) (target_cash_crops r)) (rows f)\<rparr>)"
  by (simp add: crop_step_eq compile_crops re_search_branch del: map_map)

subsection \<open>What the filter returns\<close>

lemma goal_loop_Inr: "goal_loop f gs = Inr out \<Longrightarrow> list_all (has_column f) gs"
proof (induction gs arbitrary: f)
  case Nil
  then show ?case by simp
next
  case (Cons g gs)
  from Cons.prems have g: "has_column f g"
    and rest: "goal_loop (f\<lparr>rows := filter (\<lambda>r. column_value r g = Str ''Yes'') (rows f)\<rparr>) gs = Inr out"
    by (auto simp: goal_step_def split: if_splits)
  from Cons.IH [OF rest] g show ?case by simp
qed

lemma filter_engine_Inr:
  assumes "filter_engine table goals crops = Inr out"
  shows "\<exists>re. re_compile (crop_pattern crops) = Inr re \<and> list_all (has_column table) goals \<and>
           out = table\<lparr>rows := filter (\<lambda>r. goals_met goals r \<and> re_search True re (target_cash_crops r)) (rows table)\<rparr>"
proof -
  from assms obtain f where f: "goal_loop table goals = Inr f" and c: "crop_step f crops = Inr out"
    by (auto simp: filter_engine_def split: sum.splits)
  from f have cols: "list_all (has_column table) goals" by (rule goal_loop_Inr)
  with f have f': "f = table\<lparr>rows := filter (goals_met goals) (rows table)\<rparr>"
    by (simp add: goal_loop_present)
  from c obtain re where re: "re_compile (crop_pattern crops) = Inr re"
    and out: "out = f\<lparr>rows := filter (\<lambda>r. re_search True re (target_cash_crops r)) (rows f)\<rparr>"
    by (auto simp: crop_step_eq split: sum.splits)
  have "filter (\<lambda>r. re_search True re (target_cash_crops r)) (filter (goals_met goals) (rows table))
      = filter (\<lambda>r. goals_met goals r \<and> re_search True re (target_cash_crops r)) (rows table)"
    by (simp add: conj_commute)
  with out f' have "out = table\<lparr>rows := filter (\<lambda>r. goals_met goals r \<and> re_search True re (target_cash_crops r)) (rows table)\<rparr>"
    by simp
  with re cols show ?thesis by blast
qed

lemma filter_engine_again:
  assumes "filter_engine table goals crops = Inr out"
  shows "filter_engine out goals crops = Inr out"
proof -
  from filter_engine_Inr [OF assms] obtain re where re: "re_compile (crop_pattern crops) = Inr re"
    and cols: "list_all (has_column table) goals"
    and out: "out = table\<lparr>rows := filter (\<lambda>r. goals_met goals r \<and> re_search True re (target_cash_crops r)) (rows table)\<rparr>"
    by blast
  from cols out have "list_all (has_column out) goals" by simp
  then have "goal_loop out goals = Inr (out\<lparr>rows := filter (goals_met goals) (rows out)\<rparr>)"
    by (rule goal_loop_present)
  moreover have "filter (\<lambda>r. re_search True re (target_cash_crops r)) (filter (goals_met goals) (rows out)) = rows out"
    by (simp add: out) (rule filter_cong, auto)
  ultimately show ?thesis
    by (simp add: filter_engine_def crop_step_eq re)
qed

lemma goal_rows_set:
  "has_column f g \<Longrightarrow> set (goal_rows f g) = {r \<in> set (rows f). column_value r g = Str ''Yes''}"
  by (auto simp: goal_rows_def goal_step_def)

lemma goals_met_rows:
  assumes "list_all (has_column f) goals"
  shows "filter (\<lambda>r. \<forall>g\<in>set goals. r \<in> set (goal_rows f g)) (rows f) = filter (goals_met goals) (rows f)"
  using assms by (intro filter_cong) (auto simp: goals_met_def list_all_iff goal_rows_set)

lemma goals_met_set: "set goals' = set goals \<Longrightarrow> goals_met goals' = goals_met goals"
  by (rule ext) (simp add: goals_met_def list_all_iff)

lemma empty_pattern: "re_compile (crop_pattern []) = Inr (Or Empty Never)"
  by (simp add: crop_pattern_def re_compile_def finish_def close_frame_def branch_of_def seq_of_def)

lemma crop_step_empty: "crop_step f [] = Inr f"
  by (simp add: crop_step_eq empty_pattern nullable_search)

lemma mixed_filter:
  "filter_engine mixed_table [''Soil builder''] [''Soybeans''] = Inr (mixed_table\<lparr>rows := [scenario_row]\<rparr>)"
  by code_simp

lemma filter_engine_returns:
  assumes "list_all (has_column table) goals" and "crops \<noteq> []" and "list_all plain crops"
  shows "\<exists>out. filter_engine table goals crops = Inr out"
  using assms by (simp add: filter_engine_def goal_loop_present crop_step_plain)

lemma soybeans_rows:
  "filter (\<lambda>r. any_crop_in [''Soybeans''] (target_cash_crops r)) (rows mixed_table) = [scenario_row, oats_row]"
  by code_simp

text \<open>
  Whenever the filter returns, its rows are taken from the table in the table's order, and
  they are the rows that pass the goal flags and the compiled crop pattern. It returns when
  the table has the selected goal columns and the selected names are plain.
\<close>

lemma filter_rows_in_order:
  "(filter_engine table goals crops = Inr out \<longrightarrow>
      subseq (rows out) (rows table) \<and> set (rows out) \<subseteq> set (rows table)
      \<and> columns out = columns table
      \<and> (\<exists>re. re_compile (crop_pattern crops) = Inr re \<and>
            rows out = filter (\<lambda>r. goals_met goals r \<and> re_search True re (target_cash_crops r))
                         (rows table)))
   \<and> (list_all (has_column table) goals \<longrightarrow> crops \<noteq> [] \<longrightarrow> list_all plain crops \<longrightarrow>
        (\<exists>res. filter_engine table goals crops = Inr res))"
proof (intro conjI impI)
  assume eng: "filter_engine table goals crops = Inr out"
  from filter_engine_Inr [OF eng] obtain re where re: "re_compile (crop_pattern crops) = Inr re"
    and out: "out = table\<lparr>rows := filter (\<lambda>r. goals_met goals r \<and> re_search True re (target_cash_crops r)) (rows table)\<rparr>"
    by blast
  from out have r: "rows out = filter (\<lambda>r. goals_met goals r \<and> re_search True re (target_cash_crops r)) (rows table)"
    by simp
  from out show "columns out = columns table"
    by simp
  from r show "subseq (rows out) (rows table)" and "set (rows out) \<subseteq> set (rows table)"
    by auto
  from re r show "\<exists>re. re_compile (crop_pattern crops) = Inr re \<and>
      rows out = filter (\<lambda>r. goals_met goals r \<and> re_search True re (target_cash_crops r)) (rows table)"
    by blast
next
  assume "list_all (has_column table) goals" and "crops \<noteq> []" and "list_all plain crops"
  then show "\<exists>res. filter_engine table goals crops = Inr res"
    by (rule filter_engine_returns)
qed

subsection \<open>Which records the filter keeps\<close>

text \<open>
  C1. The claim: a record is in the result exactly when all its selected goal flags are
  \<open>Yes\<close> and its crop entry contains one of the selected names as a case-insensitive
  substring. The code reads the names as a regular expression. On the three-record table
  the selector offers \<open>Corn (Sweet)\<close>; the first record meets the goal and contains that
  name, and the filter returns no record.
\<close>

theorem parenthesised_crop_not_matched:
  "selection_of goal_columns [''Soil builder'']
   \<and> selection_of (cash_crop_options mixed_table) [''Corn (Sweet)'']
   \<and> goals_met [''Soil builder''] paren_row
   \<and> any_crop_in [''Corn (Sweet)''] (target_cash_crops paren_row)
   \<and> filter_engine mixed_table [''Soil builder''] [''Corn (Sweet)''] = Inr (mixed_table\<lparr>rows := []\<rparr>)"
  by code_simp

text \<open>
  C4. The claim: the result is the ordered subsequence of the table's records that meet
  the goal condition and the crop condition, the latter being that the crop entry contains
  one of the selected names as a case-insensitive substring. The result is always taken
  from the table in the table's order, but the code reads the names as a regular
  expression. On the three-record table, with the goal \<open>Soil builder\<close> and the selector's
  options \<open>Corn (Sweet)\<close> and \<open>Soybeans\<close>, the records that meet both conditions are the
  first and the second, in that order; the filter returns the second alone.
\<close>

theorem ordered_subsequence_missed:
  "selection_of goal_columns [''Soil builder'']
   \<and> selection_of (cash_crop_options mixed_table) [''Corn (Sweet)'', ''Soybeans'']
   \<and> filter (\<lambda>r. goals_met [''Soil builder''] r
                    \<and> any_crop_in [''Corn (Sweet)'', ''Soybeans''] (target_cash_crops r))
         (rows mixed_table) = [paren_row, scenario_row]
   \<and> filter_engine mixed_table [''Soil builder''] [''Corn (Sweet)'', ''Soybeans''] =
       Inr (mixed_table\<lparr>rows := [scenario_row]\<rparr>)"
  by code_simp

subsection \<open>The goal steps\<close>

text \<open>
  C5. On a table that has the selected goal columns, a goal list with the same goals in
  any order gives the same result of the goal loop and of the whole filter, and that result
  keeps, in the table's order, the rows that are in every per-goal result.
\<close>

theorem goal_steps_commute:
  assumes "set goals' = set goals" and "list_all (has_column table) goals"
  shows "goal_loop table goals' = goal_loop table goals
         \<and> filter_engine table goals' crops = filter_engine table goals crops
         \<and> goal_loop table goals =
             Inr (table\<lparr>rows := filter (\<lambda>r. \<forall>g\<in>set goals. r \<in> set (goal_rows table g)) (rows table)\<rparr>)"
proof -
  from assms have cols': "list_all (has_column table) goals'"
    by (simp add: list_all_iff)
  from assms(1) have met: "goals_met goals' = goals_met goals"
    by (rule goals_met_set)
  from cols' assms(2) met have same: "goal_loop table goals' = goal_loop table goals"
    by (simp add: goal_loop_present)
  then have "filter_engine table goals' crops = filter_engine table goals crops"
    by (simp add: filter_engine_def)
  moreover from assms(2) have "goal_loop table goals =
      Inr (table\<lparr>rows := filter (\<lambda>r. \<forall>g\<in>set goals. r \<in> set (goal_rows table g)) (rows table)\<rparr>)"
    by (simp add: goal_loop_present goals_met_rows)
  ultimately show ?thesis using same by simp
qed

theorem goal_steps_commute_witness:
  "goal_loop mixed_table [''Weed fighter'', ''Soil builder''] = Inr (mixed_table\<lparr>rows := [paren_row]\<rparr>)
   \<and> goal_loop mixed_table [''Soil builder'', ''Weed fighter''] = Inr (mixed_table\<lparr>rows := [paren_row]\<rparr>)
   \<and> goal_rows mixed_table ''Soil builder'' = [paren_row, scenario_row]
   \<and> goal_rows mixed_table ''Weed fighter'' = [paren_row]"
proof -
  have s: "set [''Weed fighter'', ''Soil builder''] = set [''Soil builder'', ''Weed fighter'']"
    by auto
  have c: "list_all (has_column mixed_table) [''Soil builder'', ''Weed fighter'']"
    by code_simp
  have e: "goal_loop mixed_table [''Soil builder'', ''Weed fighter''] = Inr (mixed_table\<lparr>rows := [paren_row]\<rparr>)"
    by code_simp
  have r1: "goal_rows mixed_table ''Soil builder'' = [paren_row, scenario_row]"
    by code_simp
  have r2: "goal_rows mixed_table ''Weed fighter'' = [paren_row]"
    by code_simp
  from goal_steps_commute [OF s c, of "[]"] e r1 r2 show ?thesis
    by simp
qed

text \<open>
  C6. The filter reads the table only, and no action changes the table: run again with the
  same selections after a press of the button, or after any sequence of presses, it
  returns what it returned before. Run on its own result it returns that result.
\<close>

theorem filter_deterministic:
  "filter_engine (df (state (handler svc to_csv s goals crops))) goals crops =
     filter_engine (df s) goals crops
   \<and> filter_engine (df (run_actions to_csv py_repr s acts)) goals crops =
     filter_engine (df s) goals crops
   \<and> (filter_engine table goals crops = Inr out \<longrightarrow> filter_engine out goals crops = Inr out)"
  by (simp add: handler_df run_actions_df filter_engine_again)

theorem filter_deterministic_witness:
  "filter_engine mixed_table [''Soil builder''] [''Soybeans''] =
     Inr (mixed_table\<lparr>rows := [scenario_row]\<rparr>)
   \<and> filter_engine (mixed_table\<lparr>rows := [scenario_row]\<rparr>) [''Soil builder''] [''Soybeans''] =
       Inr (mixed_table\<lparr>rows := [scenario_row]\<rparr>)"
proof -
  note filter_deterministic [THEN conjunct2, THEN conjunct2, THEN mp, OF mixed_filter]
  with mixed_filter show ?thesis by (rule conjI)
qed

subsection \<open>Empty selections inside the filter\<close>

text \<open>
  C2, as amended. Run with no goal, the filter is the crop step alone. Run with no crop,
  the pattern is the empty string, which matches every entry: the result is the result of
  the goal loop, the whole table when no goal is selected either.
\<close>

theorem empty_selections_in_engine:
  "filter_engine table [] crops = crop_step table crops
   \<and> filter_engine table goals [] = goal_loop table goals"
  by (simp add: filter_engine_def crop_step_empty split: sum.splits)

text \<open>
  The claim as stated asks for the empty sequence when no crop is selected; on the
  one-record table of scenario 1 the filter returns that record.
\<close>

theorem empty_crops_counterexample:
  "filter_engine scenario_table [] [] = Inr scenario_table
   \<and> rows scenario_table = [scenario_row]"
  by (simp add: filter_engine_def crop_step_empty scenario_table_def)

subsection \<open>The crop pattern is a regular expression\<close>

text \<open>
  C10. The crop step joins the trimmed names with \<open>|\<close> and searches every crop entry for
  the compiled pattern. For a non-empty selection of the selector's options whose names
  are plain this is the case-insensitive substring test over any of the names. With a
  special character it is not: on the three-record table the option \<open>Corn (Sweet)\<close> does
  not find the record that contains it, and the option \<open>Wheat (Winter\<close> does not compile,
  which ends the handler on an exception.
\<close>

theorem crop_pattern_is_regex:
  "crop_pattern crops = join ''|'' (map strip crops)
   \<and> crop_step f crops =
       (case re_compile (crop_pattern crops) of
          Inl e \<Rightarrow> Inl e
        | Inr re \<Rightarrow> Inr (f\<lparr>rows := filter (\<lambda>r. re_search True re (target_cash_crops r)) (rows f)\<rparr>))
   \<and> (crops \<noteq> [] \<longrightarrow> selection_of (cash_crop_options table) crops \<longrightarrow> list_all plain crops \<longrightarrow>
        crop_step f crops =
          Inr (f\<lparr>rows := filter (\<lambda>r. any_crop_in crops (target_cash_crops r)) (rows f)\<rparr>))
   \<and> selection_of (cash_crop_options mixed_table) [''Corn (Sweet)'', ''Wheat (Winter'']
   \<and> \<not> plain ''Corn (Sweet)''
   \<and> any_crop_in [''Corn (Sweet)''] (target_cash_crops paren_row)
   \<and> crop_step mixed_table [''Corn (Sweet)''] = Inr (mixed_table\<lparr>rows := []\<rparr>)
   \<and> \<not> plain ''Wheat (Winter''
   \<and> crop_step mixed_table [''Wheat (Winter''] = Inl (ReError ''missing ), unterminated subpattern'')
   \<and> crash (handler svc to_csv \<lparr>df = mixed_table, ai_response = previous\<rparr> [''Soil builder''] [''Wheat (Winter''])
       = Some (ReError ''missing ), unterminated subpattern'')"
proof -
  have a: "crop_pattern crops = join ''|'' (map strip crops)"
    by (simp add: crop_pattern_def)
  have b: "crops \<noteq> [] \<longrightarrow> selection_of (cash_crop_options table) crops \<longrightarrow> list_all plain crops \<longrightarrow>
        crop_step f crops =
          Inr (f\<lparr>rows := filter (\<lambda>r. any_crop_in crops (target_cash_crops r)) (rows f)\<rparr>)"
    using crop_step_plain [of crops f] selection_stripped [of table crops] by auto
  have c: "selection_of (cash_crop_options mixed_table) [''Corn (Sweet)'', ''Wheat (Winter'']"
    by code_simp
  have d: "\<not> plain ''Corn (Sweet)''" "\<not> plain ''Wheat (Winter''"
    by code_simp+
  have e: "any_crop_in [''Corn (Sweet)''] (target_cash_crops paren_row)"
    by code_simp
  have g: "crop_step mixed_table [''Corn (Sweet)''] = Inr (mixed_table\<lparr>rows := []\<rparr>)"
    by code_simp
  have h: "crop_step mixed_table [''Wheat (Winter''] = Inl (ReError ''missing ), unterminated subpattern'')"
    by code_simp
  have "filter_engine mixed_table [''Soil builder''] [''Wheat (Winter''] = Inl (ReError ''missing ), unterminated subpattern'')"
    by code_simp
  then have i: "crash (handler svc to_csv \<lparr>df = mixed_table, ai_response = previous\<rparr> [''Soil builder''] [''Wheat (Winter''])
       = Some (ReError ''missing ), unterminated subpattern'')"
    by (simp add: handler_def)
  from a b c d e g h i crop_step_eq [of f crops] show ?thesis
    by (intro conjI)
qed

theorem crop_pattern_is_regex_witness:
  "selection_of (cash_crop_options mixed_table) [''Soybeans'']
   \<and> list_all plain [''Soybeans'']
   \<and> crop_step mixed_table [''Soybeans''] = Inr (mixed_table\<lparr>rows := [scenario_row, oats_row]\<rparr>)"
proof -
  have n: "[''Soybeans''] \<noteq> []"
    by simp
  have s: "selection_of (cash_crop_options mixed_table) [''Soybeans'']"
    by code_simp
  have p: "list_all plain [''Soybeans'']"
    by code_simp
  note crop_pattern_is_regex [of "[''Soybeans'']" mixed_table mixed_table,
      THEN conjunct2, THEN conjunct2, THEN conjunct1]
  with n s p have "crop_step mixed_table [''Soybeans''] =
      Inr (mixed_table\<lparr>rows := filter (\<lambda>r. any_crop_in [''Soybeans''] (target_cash_crops r))
                                    (rows mixed_table)\<rparr>)"
    by blast
  then have "crop_step mixed_table [''Soybeans''] = Inr (mixed_table\<lparr>rows := [scenario_row, oats_row]\<rparr>)"
    by (simp only: soybeans_rows)
  with s p show ?thesis by simp
qed

end
